theory Spec2Isabelle
  imports Main
begin

section \<open>The finite state machine adapter of fe-behavior\<close>

text \<open>
  A shallow embedding of \<^verbatim>\<open>projects/fe-behavior/src/lib/state/finite-state-machine.ts\<close>.
  The class \<^verbatim>\<open>FiniteStateMachine\<close> is a record, every public method is a function from
  the adapter (the receiver \<^verbatim>\<open>this\<close>) to either the error it throws or the adapter
  after the call together with the value of its \<^verbatim>\<open>return\<close> expression. Every
  \<^verbatim>\<open>throw\<close> of the source comes before the first assignment of its method, so a call
  that throws leaves the adapter as it was.
\<close>

subsection \<open>Values\<close>

text \<open>
  Callbacks and error handlers are function references. The adapter never calls them
  itself; it stores them, hands them to the engine and compares them by identity
  (\<^verbatim>\<open>indexOf\<close>, \<^verbatim>\<open>without\<close>), so a reference is modelled by a number.
\<close>

type_synonym callback = nat

type_synonym errorHandler = nat

text \<open>
  \<^verbatim>\<open>Error msg\<close> is \<^verbatim>\<open>throw new Error(msg)\<close> of the source, with its message.
  \<^verbatim>\<open>TypeError p\<close> is the error the JavaScript runtime throws when the property
  \<^verbatim>\<open>p\<close> of \<^verbatim>\<open>undefined\<close> is read (\<^verbatim>\<open>ourHandlers.push\<close>, \<^verbatim>\<open>func.call\<close>).
\<close>

datatype error = Error string | TypeError string

text \<open>
  The value of a \<^verbatim>\<open>return\<close> expression of a chainable method: \<^verbatim>\<open>this\<close>, or the
  global variable \<^verbatim>\<open>self\<close> (the window object of the page) that line 325 names.
\<close>

datatype ret = This | GlobalSelf

subsection \<open>JavaScript objects used as dictionaries\<close>

text \<open>
  \<^verbatim>\<open>_stateConfiguration\<close> and \<^verbatim>\<open>_transitionConfiguration\<close> are object literals
  \<^verbatim>\<open>{}\<close> keyed by strings. An object is the list of its own properties in creation
  order. Reading \<^verbatim>\<open>obj[key]\<close> finds an own property or else a property inherited from
  \<^verbatim>\<open>Object.prototype\<close>, whose members are functions (and, for \<^verbatim>\<open>__proto__\<close>, the
  prototype object), all of them truthy.
\<close>

type_synonym 'v obj = "(string \<times> 'v) list"

definition object_prototype_keys :: "string list" where
  "object_prototype_keys =
     [''constructor'', ''hasOwnProperty'', ''isPrototypeOf'', ''propertyIsEnumerable'',
      ''toLocaleString'', ''toString'', ''valueOf'', ''__proto__'',
      ''__defineGetter__'', ''__defineSetter__'', ''__lookupGetter__'', ''__lookupSetter__'']"

text \<open>The test \<^verbatim>\<open>if (obj[key])\<close> on an object whose own values are objects.\<close>

definition truthy_at :: "'v obj \<Rightarrow> string \<Rightarrow> bool" where
  "truthy_at object key =
     (case map_of object key of
        Some v \<Rightarrow> True
      | None \<Rightarrow> key \<in> set object_prototype_keys)"

text \<open>
  The assignment \<^verbatim>\<open>obj[key] = v\<close>: an existing own property keeps its place, a new
  one goes last. The source assigns only where \<^verbatim>\<open>obj[key]\<close> was falsy, so never to
  an inherited name.
\<close>

primrec assign :: "'v obj \<Rightarrow> string \<Rightarrow> 'v \<Rightarrow> 'v obj" where
  "assign [] key v = [(key, v)]"
| "assign (p # ps) key v = (if fst p = key then (key, v) # ps else p # assign ps key v)"

text \<open>
  The keys a \<^verbatim>\<open>for (const k in obj)\<close> loop visits, filtered by \<^verbatim>\<open>hasOwnProperty\<close>:
  the own keys that are array indices (canonical decimal numbers below \<open>2^32 - 1\<close>) in
  ascending numeric order, then the other own keys in creation order.
\<close>

definition is_digit :: "char \<Rightarrow> bool" where
  "is_digit c = (c \<in> set ''0123456789'')"

definition numeric_value :: "string \<Rightarrow> nat" where
  "numeric_value s = foldl (\<lambda>n c. 10 * n + (of_char c - 48)) 0 s"

definition is_array_index :: "string \<Rightarrow> bool" where
  "is_array_index s =
     (case s of
        [] \<Rightarrow> False
      | c # cs \<Rightarrow>
          list_all is_digit s \<and> (if c = CHR ''0'' then cs = [] else True) \<and>
          numeric_value s < 4294967295)"

definition own_keys :: "'v obj \<Rightarrow> string list" where
  "own_keys object =
     sort_key numeric_value (filter is_array_index (map fst object)) @
     filter (\<lambda>k. \<not> is_array_index k) (map fst object)"

subsection \<open>Helper functions of the module\<close>

text \<open>
  \<^verbatim>\<open>value.charAt(0).toUpperCase() + value.slice(1)\<close>, lines 19 to 21, on names
  written in ASCII: the letters a to z go to A to Z and every other character stays.
  JavaScript also maps letters beyond ASCII; names that start with one are outside this
  model.
\<close>

definition toUpperCase :: "char \<Rightarrow> char" where
  "toUpperCase c =
     (case map_of (zip ''abcdefghijklmnopqrstuvwxyz'' ''ABCDEFGHIJKLMNOPQRSTUVWXYZ'') c of
        Some u \<Rightarrow> u
      | None \<Rightarrow> c)"

definition captialize :: "string \<Rightarrow> string" where
  "captialize v = (case v of [] \<Rightarrow> [] | c # cs \<Rightarrow> toUpperCase c # cs)"

text \<open>
  Modelled from the spec: \<^verbatim>\<open>replaceStr\<close> of the package fe-utilities is not among the
  sources. \<^verbatim>\<open>replaceStr(transitionKeyFormat, {from, to})\<close> fills the format
  \<^verbatim>\<open>{from}2{to}\<close>; the spec calls the result the key "from2to".
\<close>

definition transitionKey :: "string \<Rightarrow> string \<Rightarrow> string" where
  "transitionKey from to = from @ ''2'' @ to"

text \<open>
  Modelled from the spec: the underscore library, whose \<^verbatim>\<open>indexOf\<close> and
  \<^verbatim>\<open>without\<close> the module imports, is not among the sources. The spec has handlers
  deduplicated and removed by reference identity: \<^verbatim>\<open>_.indexOf\<close> gives the position
  of the first element identical to the item, or \<open>-1\<close>; \<^verbatim>\<open>_.without\<close> gives a new
  array without the elements identical to the value. Both treat an \<^verbatim>\<open>undefined\<close>
  array (\<open>None\<close>) as an empty one.
\<close>

fun indexOf_from :: "'a list \<Rightarrow> 'a \<Rightarrow> int \<Rightarrow> int" where
  "indexOf_from [] item i = - 1"
| "indexOf_from (x # xs) item i = (if x = item then i else indexOf_from xs item (i + 1))"

definition indexOf :: "'a list option \<Rightarrow> 'a \<Rightarrow> int" where
  "indexOf array item = (case array of None \<Rightarrow> - 1 | Some xs \<Rightarrow> indexOf_from xs item 0)"

definition without :: "'a list option \<Rightarrow> 'a \<Rightarrow> 'a list" where
  "without array v = (case array of None \<Rightarrow> [] | Some xs \<Rightarrow> filter (\<lambda>x. x \<noteq> v) xs)"

subsection \<open>The data model\<close>

record stateSpecification =
  onEnterCallback :: "callback option"
  onLeaveCallback :: "callback option"

record transitionSpecification =
  spec_from :: string
  spec_to :: string
  onBeforeCallback :: "callback option"
  onAfterCallback :: "callback option"

text \<open>
  What \<^verbatim>\<open>start\<close> hands to the engine: the elements of the \<^verbatim>\<open>transitions\<close> array,
  the values of the \<^verbatim>\<open>methods\<close> object, and the invalid-transition handler. A method
  is a user callback, \<^verbatim>\<open>undefined\<close>, or the closure that
  \<^verbatim>\<open>buildHandlerInClosure(this._handlers, key)\<close> returns.
\<close>

record transition =
  tr_name :: string
  tr_from :: string
  tr_to :: string

datatype namedMethod = Undefined | Callback callback | HandlerClosure string

datatype invalidTransitionHandler = DefaultErrorHandler | UserErrorHandler errorHandler

record engineOptions =
  init :: string
  transitions :: "transition list"
  methods :: "string \<rightharpoonup> namedMethod"
  onInvalidTransition :: invalidTransitionHandler

text \<open>
  The engine (\<^verbatim>\<open>StateMachine\<close> of fe-dependencies) is an external collaborator. The
  adapter uses its constructor, its \<^verbatim>\<open>state\<close> property, \<^verbatim>\<open>is\<close>, \<^verbatim>\<open>cannot\<close>
  and the property \<^verbatim>\<open>this._impl[transitionName]\<close>, which is a function that changes
  the engine, or is absent. The adapter's functions take these five as a parameter.
\<close>

record 'e engine =
  eng_new :: "engineOptions \<Rightarrow> 'e"
  eng_state :: "'e \<Rightarrow> string"
  eng_is :: "'e \<Rightarrow> string \<Rightarrow> bool"
  eng_cannot :: "'e \<Rightarrow> string \<Rightarrow> bool"
  eng_method :: "'e \<Rightarrow> string \<Rightarrow> ('e \<Rightarrow> 'e) option"

text \<open>
  The private fields of the class, lines 94 to 99. \<^verbatim>\<open>_handlers\<close> is read and written
  at four fixed keys only, none of them a member of \<^verbatim>\<open>Object.prototype\<close>.
\<close>

record 'e adapter =
  impl :: "'e option"
  initState :: "string option"
  errorHandler :: "errorHandler option"
  stateConfiguration :: "stateSpecification obj"
  transitionConfiguration :: "transitionSpecification obj"
  handlers :: "string \<rightharpoonup> callback list"

type_synonym ('e, 'r) outcome = "error + ('e adapter \<times> 'r)"

definition FiniteStateMachine :: "'e adapter" where
  "FiniteStateMachine =
     \<lparr>impl = None, initState = None, errorHandler = None, stateConfiguration = [],
      transitionConfiguration = [], handlers = Map.empty\<rparr>"

text \<open>A string field that is \<^verbatim>\<open>null\<close> or the empty string is falsy.\<close>

definition truthy :: "string option \<Rightarrow> bool" where
  "truthy s = (case s of None \<Rightarrow> False | Some v \<Rightarrow> v \<noteq> [])"

subsection \<open>The fan-out closure\<close>

text \<open>
  \<^verbatim>\<open>buildHandlerInClosure(context, key)\<close>, lines 55 to 66. The closure reads
  \<^verbatim>\<open>context[key]\<close> when it is called, so it takes the handler lists of that moment.
  Its effect is the sequence of calls \<^verbatim>\<open>func.apply(null, arguments)\<close> it makes, each
  recorded as the callback with the arguments it received. Callbacks are taken to
  return and not to call back into the adapter.
\<close>

function fan_out_loop :: "callback list \<Rightarrow> 'arg \<Rightarrow> nat \<Rightarrow> (callback \<times> 'arg) list \<Rightarrow> (callback \<times> 'arg) list" where
  "fan_out_loop ourHandlers arguments i calls =
     (if i < length ourHandlers
      then fan_out_loop ourHandlers arguments (Suc i) (calls @ [(ourHandlers ! i, arguments)])
      else calls)"
  by pat_completeness auto
termination
  by (relation "measure (\<lambda>(ourHandlers, arguments, i, calls). length ourHandlers - i)") auto

declare fan_out_loop.simps [simp del]

definition buildHandlerInClosure :: "(string \<rightharpoonup> callback list) \<Rightarrow> string \<Rightarrow> 'arg \<Rightarrow> (callback \<times> 'arg) list" where
  "buildHandlerInClosure context key arguments =
     (case context key of
        None \<Rightarrow> []
      | Some ourHandlers \<Rightarrow> fan_out_loop ourHandlers arguments 0 [])"

subsection \<open>The methods of the class\<close>

definition ensureConfigureStage :: "'e adapter \<Rightarrow> error + unit" where
  "ensureConfigureStage this =
     (case impl this of
        Some e \<Rightarrow> Inl (Error ''State machine has started.'')
      | None \<Rightarrow> Inr ())"

text \<open>Where the check passes, the result is the engine that \<^verbatim>\<open>this._impl\<close> holds.\<close>

definition ensureRunningStage :: "'e adapter \<Rightarrow> error + 'e" where
  "ensureRunningStage this =
     (case impl this of
        None \<Rightarrow> Inl (Error ''State machine has not yet started.'')
      | Some e \<Rightarrow> Inr e)"

definition addState :: "'e adapter \<Rightarrow> string \<Rightarrow> callback option \<Rightarrow> callback option \<Rightarrow> ('e, ret) outcome" where
  "addState this name onEnter onLeave =
     (case ensureConfigureStage this of
        Inl err \<Rightarrow> Inl err
      | Inr _ \<Rightarrow>
          if truthy_at (stateConfiguration this) name
          then Inl (Error (''Redefined state: '' @ name))
          else Inr (this\<lparr>stateConfiguration :=
                           assign (stateConfiguration this) name
                             \<lparr>onEnterCallback = onEnter, onLeaveCallback = onLeave\<rparr>\<rparr>,
                    This))"

definition setInitState :: "'e adapter \<Rightarrow> string \<Rightarrow> ('e, ret) outcome" where
  "setInitState this name =
     (case ensureConfigureStage this of
        Inl err \<Rightarrow> Inl err
      | Inr _ \<Rightarrow>
          (case initState this of
             None \<Rightarrow> Inr (this\<lparr>initState := Some name\<rparr>, This)
           | Some s \<Rightarrow>
               if s \<noteq> [] then Inl (Error (''Redefined init state: '' @ s))
               else Inr (this\<lparr>initState := Some name\<rparr>, This)))"

definition addTransition :: "'e adapter \<Rightarrow> string \<Rightarrow> string \<Rightarrow> callback option \<Rightarrow> callback option \<Rightarrow> ('e, ret) outcome" where
  "addTransition this from to onAfter onBefore =
     (case ensureConfigureStage this of
        Inl err \<Rightarrow> Inl err
      | Inr _ \<Rightarrow>
          if \<not> truthy_at (stateConfiguration this) from
          then Inl (Error (''Undefined source state: '' @ from))
          else if \<not> truthy_at (stateConfiguration this) to
          then Inl (Error (''Undefined target state: '' @ to))
          else if truthy_at (transitionConfiguration this) (transitionKey from to)
          then Inl (Error (''Redefined transition: '' @ from @ '' -> '' @ to))
          else Inr (this\<lparr>transitionConfiguration :=
                           assign (transitionConfiguration this) (transitionKey from to)
                             \<lparr>spec_from = from, spec_to = to,
                              onBeforeCallback = onBefore, onAfterCallback = onAfter\<rparr>\<rparr>,
                    This))"

text \<open>
  The two loops of \<^verbatim>\<open>start\<close>, lines 209 to 239, over the keys in \<^verbatim>\<open>for ... in\<close>
  order. A value read from an optional field is \<^verbatim>\<open>undefined\<close> where the field is
  absent.
\<close>

definition as_method :: "callback option \<Rightarrow> namedMethod" where
  "as_method f = (case f of None \<Rightarrow> Undefined | Some c \<Rightarrow> Callback c)"

fun transition_loop :: "transitionSpecification obj \<Rightarrow> string list \<Rightarrow> transition list \<times> (string \<rightharpoonup> namedMethod) \<Rightarrow> transition list \<times> (string \<rightharpoonup> namedMethod)" where
  "transition_loop transitionConf [] acc = acc"
| "transition_loop transitionConf (k1 # ks) (ts, ms) =
     (case map_of transitionConf k1 of
        None \<Rightarrow> transition_loop transitionConf ks (ts, ms)
      | Some elem1 \<Rightarrow>
          transition_loop transitionConf ks
            (ts @ [\<lparr>tr_name = k1, tr_from = spec_from elem1, tr_to = spec_to elem1\<rparr>],
             (let ms1 = (case onAfterCallback elem1 of
                           Some f \<Rightarrow> ms(''onAfter'' @ captialize k1 \<mapsto> as_method (onAfterCallback elem1))
                         | None \<Rightarrow> ms)
              in case onBeforeCallback elem1 of
                   Some f \<Rightarrow> ms1(''onBefore'' @ captialize k1 \<mapsto> as_method (onAfterCallback elem1))
                 | None \<Rightarrow> ms1)))"

fun state_loop :: "stateSpecification obj \<Rightarrow> string list \<Rightarrow> (string \<rightharpoonup> namedMethod) \<Rightarrow> (string \<rightharpoonup> namedMethod)" where
  "state_loop stateConf [] ms = ms"
| "state_loop stateConf (k2 # ks) ms =
     (case map_of stateConf k2 of
        None \<Rightarrow> state_loop stateConf ks ms
      | Some elem2 \<Rightarrow>
          state_loop stateConf ks
            (let ms1 = (case onEnterCallback elem2 of
                          Some f \<Rightarrow> ms(''onEnter'' @ captialize k2 \<mapsto> as_method (onEnterCallback elem2))
                        | None \<Rightarrow> ms)
             in case onLeaveCallback elem2 of
                  Some f \<Rightarrow> ms1(''onLeave'' @ captialize k2 \<mapsto> as_method (onLeaveCallback elem2))
                | None \<Rightarrow> ms1))"

text \<open>The object literal of lines 248 to 253, for the init state \<open>s\<close>.\<close>

definition engine_options :: "'e adapter \<Rightarrow> string \<Rightarrow> engineOptions" where
  "engine_options this s =
     (let (ts, ms) = transition_loop (transitionConfiguration this)
                       (own_keys (transitionConfiguration this)) ([], Map.empty);
          ms2 = state_loop (stateConfiguration this) (own_keys (stateConfiguration this)) ms
      in \<lparr>init = s, transitions = ts,
          methods = ms2(''onEnterState'' \<mapsto> HandlerClosure ''onEnterState'',
                        ''onLeaveState'' \<mapsto> HandlerClosure ''onLeaveState''),
          onInvalidTransition =
            (case errorHandler this of
               Some fn \<Rightarrow> UserErrorHandler fn
             | None \<Rightarrow> DefaultErrorHandler)\<rparr>)"

definition start :: "'e engine \<Rightarrow> 'e adapter \<Rightarrow> ('e, ret) outcome" where
  "start StateMachine this =
     (case ensureConfigureStage this of
        Inl err \<Rightarrow> Inl err
      | Inr _ \<Rightarrow>
          (case initState this of
             None \<Rightarrow> Inl (Error ''Init state has not been defined.'')
           | Some s \<Rightarrow>
               if s = [] then Inl (Error ''Init state has not been defined.'')
               else Inr (this\<lparr>handlers := (handlers this)(''onEnterState'' \<mapsto> [],
                                                          ''onLeaveState'' \<mapsto> []),
                               impl := Some (eng_new StateMachine (engine_options this s))\<rparr>,
                         This)))"

definition onEnterState :: "'e adapter \<Rightarrow> callback \<Rightarrow> ('e, ret) outcome" where
  "onEnterState this handler =
     (let ourHandlers = handlers this ''onEnterState'' in
      if indexOf ourHandlers handler \<ge> 0 then Inl (Error ''Re-registering a hander!'')
      else case ourHandlers of
             None \<Rightarrow> Inl (TypeError ''push'')
           | Some hs \<Rightarrow>
               Inr (this\<lparr>handlers := (handlers this)(''onEnterState'' \<mapsto> hs @ [handler])\<rparr>, This))"

definition onExitState :: "'e adapter \<Rightarrow> callback \<Rightarrow> ('e, ret) outcome" where
  "onExitState this handler =
     (let ourHandlers = handlers this ''onLeaveState'' in
      if indexOf ourHandlers handler \<ge> 0 then Inl (Error ''Registering a hander!'')
      else case ourHandlers of
             None \<Rightarrow> Inl (TypeError ''push'')
           | Some hs \<Rightarrow>
               Inr (this\<lparr>handlers := (handlers this)(''onLeaveState'' \<mapsto> hs @ [handler])\<rparr>, This))"

definition offEnterState :: "'e adapter \<Rightarrow> callback \<Rightarrow> ('e, ret) outcome" where
  "offEnterState this handler =
     (let ourHandlers = handlers this ''onEnterState'' in
      Inr (this\<lparr>handlers := (handlers this)(''onenterstate'' \<mapsto> without ourHandlers handler)\<rparr>,
           This))"

definition offExitState :: "'e adapter \<Rightarrow> callback \<Rightarrow> ('e, ret) outcome" where
  "offExitState this handler =
     (let ourHandlers = handlers this ''onLeaveState'' in
      Inr (this\<lparr>handlers := (handlers this)(''onexitstate'' \<mapsto> without ourHandlers handler)\<rparr>,
           This))"

definition go :: "'e engine \<Rightarrow> 'e adapter \<Rightarrow> string \<Rightarrow> ('e, ret) outcome" where
  "go StateMachine this to =
     (case ensureRunningStage this of
        Inl err \<Rightarrow> Inl err
      | Inr e \<Rightarrow>
          if \<not> truthy_at (stateConfiguration this) to
          then Inl (Error (''Go to undefined state: '' @ to))
          else if eng_is StateMachine e to then Inr (this, This)
          else
            (let currentState = eng_state StateMachine e;
                 transitionName = transitionKey currentState to
             in if eng_cannot StateMachine e transitionName
                then Inl (Error (''Transition is not allowed: '' @ currentState @ '' -> '' @ to))
                else case eng_method StateMachine e transitionName of
                       None \<Rightarrow> Inl (TypeError ''call'')
                     | Some func \<Rightarrow> Inr (this\<lparr>impl := Some (func e)\<rparr>, GlobalSelf)))"

definition addErrorHandler :: "'e adapter \<Rightarrow> errorHandler option \<Rightarrow> ('e, ret) outcome" where
  "addErrorHandler this fn =
     (case ensureConfigureStage this of
        Inl err \<Rightarrow> Inl err
      | Inr _ \<Rightarrow> Inr (this\<lparr>errorHandler := fn\<rparr>, This))"

definition current :: "'e engine \<Rightarrow> 'e adapter \<Rightarrow> ('e, string) outcome" where
  "current StateMachine this =
     (case ensureRunningStage this of
        Inl err \<Rightarrow> Inl err
      | Inr e \<Rightarrow> Inr (this, eng_state StateMachine e))"

text \<open>
  Two statements on the same adapter, one after the other: the second runs on the adapter
  the first left, unless the first threw.
\<close>

definition and_then :: "('e, 'r) outcome \<Rightarrow> ('e adapter \<Rightarrow> ('e, 's) outcome) \<Rightarrow> ('e, 's) outcome" where
  "and_then r f = (case r of Inl err \<Rightarrow> Inl err | Inr (this, v) \<Rightarrow> f this)"

subsection \<open>The engine\<close>

text \<open>
  Modelled from the spec: the engine is the external state machine library, which is
  not among the sources. Section 6 of the spec gives its interface: it is built from
  the initial state, the transition list, the named methods and the invalid-transition
  handler; it has a current state, the predicate "is the current state", the predicate
  "transition forbidden" and one callable method per transition name. Calling the
  method of a transition moves the engine along the transition of that name that leaves
  the current state; where there is none, the engine reports the name to the handler and
  stays.
\<close>

record stateMachine =
  sm_state :: string
  sm_transitions :: "transition list"
  sm_reported :: "string list"

definition fire :: "string \<Rightarrow> stateMachine \<Rightarrow> stateMachine" where
  "fire t e =
     (case find (\<lambda>tr. tr_name tr = t \<and> tr_from tr = sm_state e) (sm_transitions e) of
        Some tr \<Rightarrow> e\<lparr>sm_state := tr_to tr\<rparr>
      | None \<Rightarrow> e\<lparr>sm_reported := sm_reported e @ [t]\<rparr>)"

definition StateMachine :: "stateMachine engine" where
  "StateMachine =
     \<lparr>eng_new = (\<lambda>options. \<lparr>sm_state = init options, sm_transitions = transitions options,
                            sm_reported = []\<rparr>),
      eng_state = sm_state,
      eng_is = (\<lambda>e s. sm_state e = s),
      eng_cannot = (\<lambda>e t. find (\<lambda>tr. tr_name tr = t \<and> tr_from tr = sm_state e)
                              (sm_transitions e) = None),
      eng_method = (\<lambda>e t. if find (\<lambda>tr. tr_name tr = t) (sm_transitions e) = None
                           then None else Some (fire t))\<rparr>"

subsection \<open>Adapters that have not been started\<close>

text \<open>
  The adapters on which \<^verbatim>\<open>start\<close> has not been called: the new adapter, and every
  adapter that a call of a public method other than \<^verbatim>\<open>start\<close> returns on one of
  them.
\<close>

inductive configuring :: "'e adapter \<Rightarrow> bool" where
  constructed: "configuring FiniteStateMachine"
| addState:
    "configuring this \<Longrightarrow> addState this name onEnter onLeave = Inr (this', r) \<Longrightarrow> configuring this'"
| setInitState:
    "configuring this \<Longrightarrow> setInitState this name = Inr (this', r) \<Longrightarrow> configuring this'"
| addTransition:
    "configuring this \<Longrightarrow> addTransition this from to onAfter onBefore = Inr (this', r) \<Longrightarrow> configuring this'"
| addErrorHandler:
    "configuring this \<Longrightarrow> addErrorHandler this fn = Inr (this', r) \<Longrightarrow> configuring this'"
| onEnterState:
    "configuring this \<Longrightarrow> onEnterState this handler = Inr (this', r) \<Longrightarrow> configuring this'"
| onExitState:
    "configuring this \<Longrightarrow> onExitState this handler = Inr (this', r) \<Longrightarrow> configuring this'"
| offEnterState:
    "configuring this \<Longrightarrow> offEnterState this handler = Inr (this', r) \<Longrightarrow> configuring this'"
| offExitState:
    "configuring this \<Longrightarrow> offExitState this handler = Inr (this', r) \<Longrightarrow> configuring this'"
| go:
    "configuring this \<Longrightarrow> go M this to = Inr (this', r) \<Longrightarrow> configuring this'"
| current:
    "configuring this \<Longrightarrow> current M this = Inr (this', s) \<Longrightarrow> configuring this'"

section \<open>Properties\<close>

subsection \<open>Evaluation and helper lemmas\<close>

lemmas run =
  addState_def setInitState_def addTransition_def start_def go_def current_def
  onEnterState_def onExitState_def offEnterState_def offExitState_def addErrorHandler_def
  ensureConfigureStage_def ensureRunningStage_def and_then_def FiniteStateMachine_def
  truthy_at_def object_prototype_keys_def transitionKey_def indexOf_def without_def
  engine_options_def own_keys_def is_array_index_def is_digit_def numeric_value_def
  captialize_def toUpperCase_def as_method_def StateMachine_def fire_def truthy_def Let_def

lemma indexOf_from_found: "0 \<le> i \<Longrightarrow> (0 \<le> indexOf_from xs item i) = (item \<in> set xs)"
  by (induction xs arbitrary: i) auto

lemma indexOf_found: "(0 \<le> indexOf array item) = (\<exists>xs. array = Some xs \<and> item \<in> set xs)"
  by (cases array) (simp_all add: indexOf_def indexOf_from_found)

lemma fan_out_loop_calls:
  "fan_out_loop ourHandlers arguments i calls =
     calls @ map (\<lambda>func. (func, arguments)) (drop i ourHandlers)"
proof (induction ourHandlers arguments i calls rule: fan_out_loop.induct)
  case (1 ourHandlers arguments i calls)
  show ?case
  proof (cases "i < length ourHandlers")
    case True
    with "1" show ?thesis
      by (subst fan_out_loop.simps) (simp add: Cons_nth_drop_Suc [symmetric])
  next
    case False
    then show ?thesis
      by (subst fan_out_loop.simps) simp
  qed
qed

lemma buildHandlerInClosure_calls:
  "buildHandlerInClosure context key arguments =
     (case context key of
        None \<Rightarrow> []
      | Some ourHandlers \<Rightarrow> map (\<lambda>func. (func, arguments)) ourHandlers)"
  by (simp add: buildHandlerInClosure_def fan_out_loop_calls split: option.splits)

text \<open>
  The first loop of \<^verbatim>\<open>start\<close> adds one engine transition per key it visits, named
  by the key, in the order of the visit.
\<close>

lemma transition_loop_transitions:
  "fst (transition_loop transitionConf ks (ts, ms)) =
     ts @ List.map_filter
            (\<lambda>k1. map_option
                    (\<lambda>elem1. \<lparr>tr_name = k1, tr_from = spec_from elem1, tr_to = spec_to elem1\<rparr>)
                    (map_of transitionConf k1))
            ks"
  by (induction ks arbitrary: ts ms) (simp_all split: option.splits)

lemma engine_options_fields:
  "init (engine_options this s) = s \<and>
   transitions (engine_options this s) =
     List.map_filter
       (\<lambda>k1. map_option
               (\<lambda>elem1. \<lparr>tr_name = k1, tr_from = spec_from elem1, tr_to = spec_to elem1\<rparr>)
               (map_of (transitionConfiguration this) k1))
       (own_keys (transitionConfiguration this)) \<and>
   methods (engine_options this s) ''onEnterState'' = Some (HandlerClosure ''onEnterState'') \<and>
   methods (engine_options this s) ''onLeaveState'' = Some (HandlerClosure ''onLeaveState'') \<and>
   onInvalidTransition (engine_options this s) =
     (case errorHandler this of
        Some fn \<Rightarrow> UserErrorHandler fn
      | None \<Rightarrow> DefaultErrorHandler)"
proof -
  obtain ts ms where loop:
    "transition_loop (transitionConfiguration this) (own_keys (transitionConfiguration this))
       ([], Map.empty) = (ts, ms)"
    by (cases "transition_loop (transitionConfiguration this)
                 (own_keys (transitionConfiguration this)) ([], Map.empty)")
  have "ts = fst (transition_loop (transitionConfiguration this)
                    (own_keys (transitionConfiguration this)) ([], Map.empty))"
    by (simp add: loop)
  then have "ts =
     List.map_filter
       (\<lambda>k1. map_option
               (\<lambda>elem1. \<lparr>tr_name = k1, tr_from = spec_from elem1, tr_to = spec_to elem1\<rparr>)
               (map_of (transitionConfiguration this) k1))
       (own_keys (transitionConfiguration this))"
    by (simp add: transition_loop_transitions)
  then show ?thesis
    by (simp add: engine_options_def loop)
qed

text \<open>
  The second loop of \<^verbatim>\<open>start\<close> writes only under the keys
  \<^verbatim>\<open>'onEnter' + captialize(k2)\<close> and \<^verbatim>\<open>'onLeave' + captialize(k2)\<close> of the
  states it visits. Where no other visited state has the same capitalized name, the
  entries of a state are its own callbacks.
\<close>

lemma state_loop_other_keys:
  "\<forall>k2 \<in> set ks. ''onEnter'' @ captialize k2 \<noteq> key \<and> ''onLeave'' @ captialize k2 \<noteq> key \<Longrightarrow>
     state_loop stateConf ks ms key = ms key"
  by (induction ks arbitrary: ms) (auto simp: Let_def split: option.splits)

lemma state_loop_onEnter:
  assumes "k \<in> set ks"
    and "map_of stateConf k = Some elem2"
    and "onEnterCallback elem2 = Some f"
    and "\<forall>k2 \<in> set ks. captialize k2 = captialize k \<longrightarrow> k2 = k"
  shows "state_loop stateConf ks ms (''onEnter'' @ captialize k) = Some (Callback f)"
  using assms
proof (induction ks arbitrary: ms)
  case Nil
  then show ?case by simp
next
  case (Cons k0 ks)
  show ?case
  proof (cases "k \<in> set ks")
    case True
    with Cons show ?thesis
      by (auto simp: Let_def split: option.splits)
  next
    case False
    with Cons.prems have k0: "k0 = k" by simp
    from False Cons.prems(4)
    have rest: "\<forall>k2 \<in> set ks. ''onEnter'' @ captialize k2 \<noteq> ''onEnter'' @ captialize k \<and>
                                 ''onLeave'' @ captialize k2 \<noteq> ''onEnter'' @ captialize k"
      by auto
    have keep: "state_loop stateConf ks ms' (''onEnter'' @ captialize k) =
                  ms' (''onEnter'' @ captialize k)" for ms'
      by (rule state_loop_other_keys [OF rest])
    show ?thesis
      using Cons.prems(2,3) keep
      by (simp add: k0 as_method_def Let_def split: option.splits)
  qed
qed

lemma state_loop_onLeave:
  assumes "k \<in> set ks"
    and "map_of stateConf k = Some elem2"
    and "onLeaveCallback elem2 = Some f"
    and "\<forall>k2 \<in> set ks. captialize k2 = captialize k \<longrightarrow> k2 = k"
  shows "state_loop stateConf ks ms (''onLeave'' @ captialize k) = Some (Callback f)"
  using assms
proof (induction ks arbitrary: ms)
  case Nil
  then show ?case by simp
next
  case (Cons k0 ks)
  show ?case
  proof (cases "k \<in> set ks")
    case True
    with Cons show ?thesis
      by (auto simp: Let_def split: option.splits)
  next
    case False
    with Cons.prems have k0: "k0 = k" by simp
    from False Cons.prems(4)
    have rest: "\<forall>k2 \<in> set ks. ''onEnter'' @ captialize k2 \<noteq> ''onLeave'' @ captialize k \<and>
                                 ''onLeave'' @ captialize k2 \<noteq> ''onLeave'' @ captialize k"
      by auto
    have keep: "state_loop stateConf ks ms' (''onLeave'' @ captialize k) =
                  ms' (''onLeave'' @ captialize k)" for ms'
      by (rule state_loop_other_keys [OF rest])
    show ?thesis
      using Cons.prems(2,3) keep
      by (simp add: k0 as_method_def Let_def split: option.splits)
  qed
qed

text \<open>
  So the method map that \<^verbatim>\<open>start\<close> hands to the engine holds, for a declared state
  whose capitalized name no other declared state shares and is not \<^verbatim>\<open>State\<close>, the
  state's own enter and leave callbacks.
\<close>

lemma engine_options_state_methods:
  assumes "k \<in> set (own_keys (stateConfiguration this))"
    and "map_of (stateConfiguration this) k = Some elem2"
    and "\<forall>k2 \<in> set (own_keys (stateConfiguration this)). captialize k2 = captialize k \<longrightarrow> k2 = k"
    and "captialize k \<noteq> ''State''"
  shows "(onEnterCallback elem2 = Some f \<longrightarrow>
            methods (engine_options this s) (''onEnter'' @ captialize k) = Some (Callback f)) \<and>
         (onLeaveCallback elem2 = Some g \<longrightarrow>
            methods (engine_options this s) (''onLeave'' @ captialize k) = Some (Callback g))"
proof -
  obtain ts ms where loop:
    "transition_loop (transitionConfiguration this) (own_keys (transitionConfiguration this))
       ([], Map.empty) = (ts, ms)"
    by (cases "transition_loop (transitionConfiguration this)
                 (own_keys (transitionConfiguration this)) ([], Map.empty)")
  have enter:
    "state_loop (stateConfiguration this) (own_keys (stateConfiguration this)) ms
       (''onEnter'' @ captialize k) = Some (Callback f)"
    if "onEnterCallback elem2 = Some f"
    by (rule state_loop_onEnter [OF assms(1) assms(2) that assms(3)])
  have leave:
    "state_loop (stateConfiguration this) (own_keys (stateConfiguration this)) ms
       (''onLeave'' @ captialize k) = Some (Callback g)"
    if "onLeaveCallback elem2 = Some g"
    by (rule state_loop_onLeave [OF assms(1) assms(2) that assms(3)])
  from enter leave assms(4) show ?thesis
    by (simp add: engine_options_def loop)
qed

lemma onEnterState_appends:
  "onEnterState this handler = Inr (this', r) \<Longrightarrow>
     \<exists>hs. handlers this ''onEnterState'' = Some hs \<and>
          handlers this' ''onEnterState'' = Some (hs @ [handler])"
  by (auto simp: onEnterState_def Let_def split: if_splits option.splits)

lemma onExitState_appends:
  "onExitState this handler = Inr (this', r) \<Longrightarrow>
     \<exists>hs. handlers this ''onLeaveState'' = Some hs \<and>
          handlers this' ''onLeaveState'' = Some (hs @ [handler])"
  by (auto simp: onExitState_def Let_def split: if_splits option.splits)

text \<open>
  Before \<^verbatim>\<open>start\<close> there is no engine and neither handler list exists: no method
  but \<^verbatim>\<open>start\<close> creates them.
\<close>

lemma configuring_invariant:
  "configuring this \<Longrightarrow>
     impl this = None \<and> handlers this ''onEnterState'' = None \<and>
     handlers this ''onLeaveState'' = None"
proof (induction rule: configuring.induct)
  case constructed
  show ?case by (simp add: FiniteStateMachine_def)
next
  case (addState this name onEnter onLeave this' r)
  then show ?case
    by (auto simp: addState_def ensureConfigureStage_def split: if_splits option.splits)
next
  case (setInitState this name this' r)
  then show ?case
    by (auto simp: setInitState_def ensureConfigureStage_def split: if_splits option.splits)
next
  case (addTransition this "from" to onAfter onBefore this' r)
  then show ?case
    by (auto simp: addTransition_def ensureConfigureStage_def split: if_splits option.splits)
next
  case (addErrorHandler this fn this' r)
  then show ?case
    by (auto simp: addErrorHandler_def ensureConfigureStage_def split: option.splits)
next
  case (onEnterState this handler this' r)
  then show ?case by (simp add: onEnterState_def indexOf_def)
next
  case (onExitState this handler this' r)
  then show ?case by (simp add: onExitState_def indexOf_def)
next
  case (offEnterState this handler this' r)
  then show ?case by (auto simp: offEnterState_def)
next
  case (offExitState this handler this' r)
  then show ?case by (auto simp: offExitState_def)
next
  case (go this M to this' r)
  then show ?case by (simp add: go_def ensureRunningStage_def)
next
  case (current this M this' s)
  then show ?case by (simp add: current_def ensureRunningStage_def)
qed

subsection \<open>Handler registration before start\<close>

text \<open>
  Claim C7, as the code has it. On every adapter on which \<^verbatim>\<open>start\<close> has not been
  called, \<^verbatim>\<open>onEnterState(h)\<close> and \<^verbatim>\<open>onExitState(h)\<close> raise, for every handler,
  because the handler list they push onto does not exist yet. What they raise is the
  runtime's TypeError for \<^verbatim>\<open>push\<close> on \<^verbatim>\<open>undefined\<close>, not the stage error of
  \<^verbatim>\<open>ensureRunningStage\<close> that \<^verbatim>\<open>go\<close> and \<^verbatim>\<open>current\<close> raise: neither
  registration method calls it.
\<close>

theorem registration_before_start_raises:
  "configuring this \<Longrightarrow>
     onEnterState this handler = Inl (TypeError ''push'') \<and>
     onExitState this handler = Inl (TypeError ''push'')"
  using configuring_invariant [of this]
  by (simp add: onEnterState_def onExitState_def indexOf_def)

theorem registration_before_start_raises_witness:
  "configuring
     ((FiniteStateMachine :: stateMachine adapter)
        \<lparr>stateConfiguration := [(''n1'', \<lparr>onEnterCallback = None, onLeaveCallback = None\<rparr>)],
         handlers := [''onenterstate'' \<mapsto> []]\<rparr>) \<and>
   onEnterState
     ((FiniteStateMachine :: stateMachine adapter)
        \<lparr>stateConfiguration := [(''n1'', \<lparr>onEnterCallback = None, onLeaveCallback = None\<rparr>)],
         handlers := [''onenterstate'' \<mapsto> []]\<rparr>) 7 = Inl (TypeError ''push'') \<and>
   onExitState
     ((FiniteStateMachine :: stateMachine adapter)
        \<lparr>stateConfiguration := [(''n1'', \<lparr>onEnterCallback = None, onLeaveCallback = None\<rparr>)],
         handlers := [''onenterstate'' \<mapsto> []]\<rparr>) 7 = Inl (TypeError ''push'')"
proof -
  have added:
    "configuring
       ((FiniteStateMachine :: stateMachine adapter)
          \<lparr>stateConfiguration := [(''n1'', \<lparr>onEnterCallback = None, onLeaveCallback = None\<rparr>)]\<rparr>)"
    by (rule configuring.addState [OF configuring.constructed, of "''n1''" None None _ This])
      (simp add: run)
  have removed:
    "configuring
       ((FiniteStateMachine :: stateMachine adapter)
          \<lparr>stateConfiguration := [(''n1'', \<lparr>onEnterCallback = None, onLeaveCallback = None\<rparr>)],
           handlers := [''onenterstate'' \<mapsto> []]\<rparr>)"
    by (rule configuring.offEnterState [OF added, of 3 _ This]) (simp add: run)
  from registration_before_start_raises [OF removed, of 7] removed show ?thesis
    by simp
qed

subsection \<open>The fan-out closure\<close>

text \<open>
  Claim C8. The closure built for a handler list calls every callback that is in the
  list when it runs, once each, from index 0 upwards, each with the arguments the closure
  received; where the list is absent it calls nothing. \<^verbatim>\<open>onEnterState\<close> and
  \<^verbatim>\<open>onExitState\<close> put a new handler last, so the order is the order of registration.
\<close>

theorem fan_out_in_registration_order:
  "buildHandlerInClosure context key arguments =
     (case context key of
        None \<Rightarrow> []
      | Some ourHandlers \<Rightarrow> map (\<lambda>func. (func, arguments)) ourHandlers) \<and>
   (onEnterState this handler = Inr (this', r) \<longrightarrow>
      buildHandlerInClosure (handlers this') ''onEnterState'' arguments =
        buildHandlerInClosure (handlers this) ''onEnterState'' arguments @ [(handler, arguments)]) \<and>
   (onExitState this handler = Inr (this', r) \<longrightarrow>
      buildHandlerInClosure (handlers this') ''onLeaveState'' arguments =
        buildHandlerInClosure (handlers this) ''onLeaveState'' arguments @ [(handler, arguments)])"
  by (auto simp: buildHandlerInClosure_calls dest!: onEnterState_appends onExitState_appends)

theorem fan_out_in_registration_order_witness:
  "buildHandlerInClosure [''onEnterState'' \<mapsto> [3, 1, 2]] ''onEnterState'' ''evt'' =
     [(3, ''evt''), (1, ''evt''), (2, ''evt'')] \<and>
   onEnterState
     ((FiniteStateMachine :: stateMachine adapter)\<lparr>handlers := [''onEnterState'' \<mapsto> [3, 1]]\<rparr>) 2 =
     Inr ((FiniteStateMachine :: stateMachine adapter)\<lparr>handlers := [''onEnterState'' \<mapsto> [3, 1, 2]]\<rparr>,
          This) \<and>
   buildHandlerInClosure [''onEnterState'' \<mapsto> [3, 1, 2]] ''onEnterState'' ''evt'' =
     buildHandlerInClosure [''onEnterState'' \<mapsto> [3, 1]] ''onEnterState'' ''evt'' @ [(2, ''evt'')]"
  using fan_out_in_registration_order
    [of "[''onEnterState'' \<mapsto> [3, 1, 2]]" "''onEnterState''" "''evt''"
        "(FiniteStateMachine :: stateMachine adapter)\<lparr>handlers := [''onEnterState'' \<mapsto> [3, 1]]\<rparr>"
        2
        "(FiniteStateMachine :: stateMachine adapter)\<lparr>handlers := [''onEnterState'' \<mapsto> [3, 1, 2]]\<rparr>"
        This]
  by (simp add: run buildHandlerInClosure_calls)

subsection \<open>Going to the current state\<close>

text \<open>
  Claim C4. On a started adapter whose engine reports that it is in the declared state
  \<open>to\<close>, \<^verbatim>\<open>go(to)\<close> returns the adapter unchanged, and so the engine and its current
  state unchanged. It does so whatever the engine's \<^verbatim>\<open>cannot\<close> predicate answers and
  whatever transition methods the engine has: the result is the same for every
  \<open>cannot\<close> and every \<open>table\<close> of methods, also for the engine that forbids
  every transition and has no method at all, so neither is consulted and no
  self-transition is needed.
\<close>

theorem go_to_current_state_is_noop:
  assumes "impl this = Some e"
    and "map_of (stateConfiguration this) to = Some declared"
    and "eng_is M e to"
  shows "go (M\<lparr>eng_cannot := cannot, eng_method := table\<rparr>) this to = Inr (this, This)"
  using assms by (simp add: go_def ensureRunningStage_def truthy_at_def)

theorem go_to_current_state_is_noop_witness:
  "and_then
     (and_then (addState FiniteStateMachine ''n1'' None None) (\<lambda>this. setInitState this ''n1''))
     (start StateMachine) =
     Inr (FiniteStateMachine
            \<lparr>impl := Some \<lparr>sm_state = ''n1'', sm_transitions = [], sm_reported = []\<rparr>,
             initState := Some ''n1'',
             stateConfiguration := [(''n1'', \<lparr>onEnterCallback = None, onLeaveCallback = None\<rparr>)],
             handlers := [''onEnterState'' \<mapsto> [], ''onLeaveState'' \<mapsto> []]\<rparr>,
          This) \<and>
   go (StateMachine\<lparr>eng_cannot := \<lambda>e t. True, eng_method := \<lambda>e t. None\<rparr>)
     (FiniteStateMachine
        \<lparr>impl := Some \<lparr>sm_state = ''n1'', sm_transitions = [], sm_reported = []\<rparr>,
         initState := Some ''n1'',
         stateConfiguration := [(''n1'', \<lparr>onEnterCallback = None, onLeaveCallback = None\<rparr>)],
         handlers := [''onEnterState'' \<mapsto> [], ''onLeaveState'' \<mapsto> []]\<rparr>)
     ''n1'' =
     Inr (FiniteStateMachine
            \<lparr>impl := Some \<lparr>sm_state = ''n1'', sm_transitions = [], sm_reported = []\<rparr>,
             initState := Some ''n1'',
             stateConfiguration := [(''n1'', \<lparr>onEnterCallback = None, onLeaveCallback = None\<rparr>)],
             handlers := [''onEnterState'' \<mapsto> [], ''onLeaveState'' \<mapsto> []]\<rparr>,
          This)"
  using go_to_current_state_is_noop
    [where this = "FiniteStateMachine
           \<lparr>impl := Some \<lparr>sm_state = ''n1'', sm_transitions = [], sm_reported = []\<rparr>,
            initState := Some ''n1'',
            stateConfiguration := [(''n1'', \<lparr>onEnterCallback = None, onLeaveCallback = None\<rparr>)],
            handlers := [''onEnterState'' \<mapsto> [], ''onLeaveState'' \<mapsto> []]\<rparr>"
       and e = "\<lparr>sm_state = ''n1'', sm_transitions = [], sm_reported = []\<rparr>"
       and to = "''n1''"
       and declared = "\<lparr>onEnterCallback = None, onLeaveCallback = None\<rparr>"
       and M = StateMachine and cannot = "\<lambda>e t. True" and table = "\<lambda>e t. None"]
  by (simp add: run)

subsection \<open>The init state\<close>

text \<open>
  Claim C10. \<^verbatim>\<open>setInitState(name)\<close> never looks at the declared states: on an adapter
  that has not started and has no init state it succeeds for every name, declared or
  not. The \<^verbatim>\<open>start\<close> that follows does not look at them either: it hands the name to
  the engine as its initial state and returns, and the only error it can raise for the
  init state is the one for a missing init state, which it raises for the empty name.
\<close>

theorem init_state_is_not_validated:
  assumes "impl this = None" and "\<not> truthy (initState this)"
  shows "setInitState this name = Inr (this\<lparr>initState := Some name\<rparr>, This) \<and>
         start M (this\<lparr>initState := Some name\<rparr>) =
           (if name = [] then Inl (Error ''Init state has not been defined.'')
            else Inr (this\<lparr>initState := Some name,
                            handlers := (handlers this)(''onEnterState'' \<mapsto> [],
                                                       ''onLeaveState'' \<mapsto> []),
                            impl := Some (eng_new M
                                            (engine_options (this\<lparr>initState := Some name\<rparr>) name))\<rparr>,
                      This)) \<and>
         init (engine_options (this\<lparr>initState := Some name\<rparr>) name) = name"
  using assms
  by (auto simp: setInitState_def start_def ensureConfigureStage_def truthy_def
      engine_options_def split: option.splits prod.splits)

theorem init_state_is_not_validated_witness:
  "map_of (stateConfiguration (FiniteStateMachine :: stateMachine adapter)) ''nowhere'' = None \<and>
   setInitState (FiniteStateMachine :: stateMachine adapter) ''nowhere'' =
     Inr (FiniteStateMachine\<lparr>initState := Some ''nowhere''\<rparr>, This) \<and>
   start StateMachine (FiniteStateMachine\<lparr>initState := Some ''nowhere''\<rparr>) =
     Inr (FiniteStateMachine
            \<lparr>initState := Some ''nowhere'',
             handlers := [''onEnterState'' \<mapsto> [], ''onLeaveState'' \<mapsto> []],
             impl := Some \<lparr>sm_state = ''nowhere'', sm_transitions = [], sm_reported = []\<rparr>\<rparr>,
          This)"
  using init_state_is_not_validated
    [of "FiniteStateMachine :: stateMachine adapter" "''nowhere''" StateMachine]
  by (simp add: run)

subsection \<open>Starting\<close>

text \<open>
  Exactly when \<^verbatim>\<open>start()\<close> raises: the adapter has already started, or its init
  state is unset or the empty string. Otherwise it returns the adapter, now holding the
  engine built from the init state, one transition per declared transition, a method map
  with the two fan-out closures, and the user's error handler or the default one; and a
  second \<^verbatim>\<open>start()\<close> raises.
\<close>

theorem start_raises_iff:
  "((\<exists>err. start M this = Inl err) \<longleftrightarrow> (impl this \<noteq> None \<or> \<not> truthy (initState this))) \<and>
   (start M this = Inr (this', r) \<longrightarrow>
      r = This \<and>
      (\<exists>s. initState this = Some s \<and> s \<noteq> [] \<and>
           impl this' = Some (eng_new M (engine_options this s)) \<and>
           init (engine_options this s) = s \<and>
           transitions (engine_options this s) =
             List.map_filter
               (\<lambda>k1. map_option
                       (\<lambda>elem1. \<lparr>tr_name = k1, tr_from = spec_from elem1,
                                  tr_to = spec_to elem1\<rparr>)
                       (map_of (transitionConfiguration this) k1))
               (own_keys (transitionConfiguration this)) \<and>
           methods (engine_options this s) ''onEnterState'' =
             Some (HandlerClosure ''onEnterState'') \<and>
           methods (engine_options this s) ''onLeaveState'' =
             Some (HandlerClosure ''onLeaveState'') \<and>
           onInvalidTransition (engine_options this s) =
             (case errorHandler this of
                Some fn \<Rightarrow> UserErrorHandler fn
              | None \<Rightarrow> DefaultErrorHandler)) \<and>
      start M this' = Inl (Error ''State machine has started.''))"
proof -
  have raises:
    "(\<exists>err. start M this = Inl err) \<longleftrightarrow> (impl this \<noteq> None \<or> \<not> truthy (initState this))"
    by (auto simp: start_def ensureConfigureStage_def truthy_def
        split: option.splits if_splits)
  have returns:
    "r = This \<and>
     (\<exists>s. initState this = Some s \<and> s \<noteq> [] \<and>
          impl this' = Some (eng_new M (engine_options this s))) \<and>
     start M this' = Inl (Error ''State machine has started.'')"
    if "start M this = Inr (this', r)"
    using that
    by (auto simp: start_def ensureConfigureStage_def split: option.splits if_splits)
  from raises returns show ?thesis
    using engine_options_fields by blast
qed

theorem start_raises_iff_witness:
  "(\<exists>err. start StateMachine (FiniteStateMachine :: stateMachine adapter) = Inl err) \<and>
   start StateMachine (FiniteStateMachine\<lparr>initState := Some ''n1''\<rparr>) =
     Inr (FiniteStateMachine
            \<lparr>initState := Some ''n1'',
             handlers := [''onEnterState'' \<mapsto> [], ''onLeaveState'' \<mapsto> []],
             impl := Some \<lparr>sm_state = ''n1'', sm_transitions = [], sm_reported = []\<rparr>\<rparr>,
          This) \<and>
   start StateMachine
     (FiniteStateMachine
        \<lparr>initState := Some ''n1'',
         handlers := [''onEnterState'' \<mapsto> [], ''onLeaveState'' \<mapsto> []],
         impl := Some \<lparr>sm_state = ''n1'', sm_transitions = [], sm_reported = []\<rparr>\<rparr>) =
     Inl (Error ''State machine has started.'')"
  using start_raises_iff [of StateMachine "FiniteStateMachine :: stateMachine adapter"]
    start_raises_iff
      [of StateMachine "FiniteStateMachine\<lparr>initState := Some ''n1''\<rparr>"
          "FiniteStateMachine
             \<lparr>initState := Some ''n1'',
              handlers := [''onEnterState'' \<mapsto> [], ''onLeaveState'' \<mapsto> []],
              impl := Some \<lparr>sm_state = ''n1'', sm_transitions = [], sm_reported = []\<rparr>\<rparr>"
          This]
  by (simp add: run)

text \<open>
  Claim C5, at the input where the code departs from it. \<^verbatim>\<open>addState('')\<close> declares
  the empty name like any other and \<^verbatim>\<open>setInitState('')\<close> succeeds on the new
  adapter, so an init state has been set and the adapter has not started; yet
  \<^verbatim>\<open>start()\<close> raises the error for a missing init state, and a second
  \<^verbatim>\<open>setInitState\<close> succeeds instead of raising the redefinition error. The guards
  of lines 154 and 198 test \<^verbatim>\<open>this._initState\<close> for truthiness, and the empty string
  is falsy.
\<close>

theorem start_after_empty_init_state_raises:
  "addState (FiniteStateMachine :: stateMachine adapter) [] None None =
     Inr (FiniteStateMachine
            \<lparr>stateConfiguration := [([], \<lparr>onEnterCallback = None, onLeaveCallback = None\<rparr>)]\<rparr>,
          This) \<and>
   setInitState (FiniteStateMachine :: stateMachine adapter) [] =
     Inr (FiniteStateMachine\<lparr>initState := Some []\<rparr>, This) \<and>
   impl (FiniteStateMachine\<lparr>initState := Some []\<rparr> :: stateMachine adapter) = None \<and>
   start StateMachine (FiniteStateMachine\<lparr>initState := Some []\<rparr>) =
     Inl (Error ''Init state has not been defined.'') \<and>
   setInitState (FiniteStateMachine\<lparr>initState := Some []\<rparr> :: stateMachine adapter) ''n1'' =
     Inr (FiniteStateMachine\<lparr>initState := Some ''n1''\<rparr>, This)"
  by (simp add: run)

subsection \<open>Declared names and names inherited from the object prototype\<close>

text \<open>
  Exactly when \<^verbatim>\<open>addState\<close> raises: the adapter has started, or
  \<^verbatim>\<open>stateConf[name]\<close> is truthy, which it is for a declared name and also for every
  member name of \<^verbatim>\<open>Object.prototype\<close>. So a second \<^verbatim>\<open>addState\<close> of a name and
  every \<^verbatim>\<open>addState\<close> after \<^verbatim>\<open>start\<close> raise.
\<close>

theorem addState_raises_iff:
  "(\<exists>err. addState this name onEnter onLeave = Inl err) \<longleftrightarrow>
     ((\<exists>e. impl this = Some e) \<or> (\<exists>declared. map_of (stateConfiguration this) name = Some declared) \<or>
      name \<in> set object_prototype_keys)"
  by (auto simp: addState_def ensureConfigureStage_def truthy_at_def split: option.splits)

theorem addState_raises_iff_witness:
  "addState (FiniteStateMachine :: stateMachine adapter) ''n1'' None None =
     Inr (FiniteStateMachine
            \<lparr>stateConfiguration := [(''n1'', \<lparr>onEnterCallback = None, onLeaveCallback = None\<rparr>)]\<rparr>,
          This) \<and>
   (\<exists>err. addState
            ((FiniteStateMachine :: stateMachine adapter)
               \<lparr>stateConfiguration := [(''n1'', \<lparr>onEnterCallback = None, onLeaveCallback = None\<rparr>)]\<rparr>)
            ''n1'' (Some 1) None = Inl err)"
  using addState_raises_iff
    [of "(FiniteStateMachine :: stateMachine adapter)
           \<lparr>stateConfiguration := [(''n1'', \<lparr>onEnterCallback = None, onLeaveCallback = None\<rparr>)]\<rparr>"
        "''n1''" "Some 1" None]
  by (simp add: run)

text \<open>
  Claim C6, at the input where the code departs from it. On the new adapter, where no
  state is declared and \<^verbatim>\<open>start\<close> has not run, \<^verbatim>\<open>addState('constructor')\<close> raises
  the redefinition error: \<^verbatim>\<open>stateConf[name]\<close> finds the inherited property. The loops of
  \<^verbatim>\<open>start\<close> guard against inherited properties with \<^verbatim>\<open>hasOwnProperty\<close>; this test
  does not.
\<close>

theorem addState_inherited_name_raises:
  "addState (FiniteStateMachine :: stateMachine adapter) ''constructor'' None None =
     Inl (Error ''Redefined state: constructor'')"
  by (simp add: run)

text \<open>
  Exactly when \<^verbatim>\<open>go\<close> raises, for any engine: the adapter has not started,
  or \<^verbatim>\<open>stateConf[to]\<close> is falsy, or the engine is not in \<open>to\<close> and either
  forbids the transition named after the current state and \<open>to\<close> or has no method of
  that name. Where the engine forbids it, the error is the adapter's own, whatever
  methods the engine has.
\<close>

theorem go_raises_iff:
  "((\<exists>err. go M this to = Inl err) \<longleftrightarrow>
      (case impl this of
         None \<Rightarrow> True
       | Some e \<Rightarrow>
           if truthy_at (stateConfiguration this) to
           then if eng_is M e to then False
                else if eng_cannot M e (transitionKey (eng_state M e) to) then True
                else eng_method M e (transitionKey (eng_state M e) to) = None
           else True)) \<and>
   (case impl this of
      None \<Rightarrow> True
    | Some e \<Rightarrow>
        if truthy_at (stateConfiguration this) to \<and> \<not> eng_is M e to \<and>
           eng_cannot M e (transitionKey (eng_state M e) to)
        then go M this to =
               Inl (Error (''Transition is not allowed: '' @ eng_state M e @ '' -> '' @ to))
        else True)"
  by (auto simp: go_def ensureRunningStage_def Let_def split: option.splits)

theorem go_raises_iff_witness:
  "go StateMachine
     ((FiniteStateMachine :: stateMachine adapter)
        \<lparr>impl := Some \<lparr>sm_state = ''n1'', sm_transitions = [], sm_reported = []\<rparr>,
         stateConfiguration :=
           [(''n1'', \<lparr>onEnterCallback = None, onLeaveCallback = None\<rparr>),
            (''n2'', \<lparr>onEnterCallback = None, onLeaveCallback = None\<rparr>)]\<rparr>)
     ''n2'' = Inl (Error ''Transition is not allowed: n1 -> n2'')"
  using go_raises_iff
    [of StateMachine
        "(FiniteStateMachine :: stateMachine adapter)
           \<lparr>impl := Some \<lparr>sm_state = ''n1'', sm_transitions = [], sm_reported = []\<rparr>,
            stateConfiguration :=
              [(''n1'', \<lparr>onEnterCallback = None, onLeaveCallback = None\<rparr>),
               (''n2'', \<lparr>onEnterCallback = None, onLeaveCallback = None\<rparr>)]\<rparr>"
        "''n2''"]
  by (simp add: run)

text \<open>
  Claim C3, at the input where the code departs from it. No state is declared;
  \<^verbatim>\<open>setInitState('constructor')\<close> and \<^verbatim>\<open>start()\<close> succeed, and then
  \<^verbatim>\<open>go('constructor')\<close> returns instead of raising the undefined-state error, because
  \<^verbatim>\<open>stateConf[to]\<close> finds the inherited property.
\<close>

theorem go_to_inherited_name_returns:
  "map_sum id snd
     (and_then
        (and_then (setInitState FiniteStateMachine ''constructor'') (start StateMachine))
        (\<lambda>this. go StateMachine this ''constructor'')) = Inr This"
  by (simp add: run)

subsection \<open>Removing a handler\<close>

text \<open>
  \<^verbatim>\<open>offEnterState\<close> and \<^verbatim>\<open>offExitState\<close> leave both handler lists as they were,
  on every adapter and for every handler.
\<close>

lemma off_keeps_the_registered_lists:
  "(offEnterState this handler = Inr (this', r) \<or> offExitState this handler = Inr (this', r)) \<Longrightarrow>
     handlers this' ''onEnterState'' = handlers this ''onEnterState'' \<and>
     handlers this' ''onLeaveState'' = handlers this ''onLeaveState''"
  by (auto simp: offEnterState_def offExitState_def)

text \<open>
  Claim C1, at the input where the code departs from it. On a started adapter,
  \<^verbatim>\<open>onEnterState(h); offEnterState(h); onEnterState(h)\<close> raises at the third call:
  \<^verbatim>\<open>offEnterState\<close> stores the shortened list under the key \<^verbatim>\<open>onenterstate\<close> and
  leaves the list under \<^verbatim>\<open>onEnterState\<close>, which the other methods and the fan-out
  closure read, as it was. After the removal the closure still calls the handler.
\<close>

theorem off_then_on_again_raises:
  "and_then (and_then (and_then (and_then (and_then
     (addState (FiniteStateMachine :: stateMachine adapter) ''n1'' None None)
     (\<lambda>this. setInitState this ''n1''))
     (start StateMachine))
     (\<lambda>this. onEnterState this 7))
     (\<lambda>this. offEnterState this 7))
     (\<lambda>this. onEnterState this 7) = Inl (Error ''Re-registering a hander!'') \<and>
   map_sum id (\<lambda>(this, r). buildHandlerInClosure (handlers this) ''onEnterState'' ''evt'')
     (and_then (and_then (and_then (and_then
        (addState (FiniteStateMachine :: stateMachine adapter) ''n1'' None None)
        (\<lambda>this. setInitState this ''n1''))
        (start StateMachine))
        (\<lambda>this. onEnterState this 7))
        (\<lambda>this. offEnterState this 7)) = Inr [(7, ''evt'')]"
  by (simp add: run buildHandlerInClosure_calls)

subsection \<open>The method map\<close>

text \<open>
  Claim C2, at the input where the code departs from it. The transition n1 to n2 is
  declared with the onAfter callback 1 and the onBefore callback 2. \<^verbatim>\<open>start\<close> builds
  the engine from a method map whose entry \<^verbatim>\<open>onBeforeN12n2\<close> is callback 1: line 222
  assigns \<^verbatim>\<open>elem1.onAfterCallback\<close>. The engine here keeps the options it was built
  from, so that the map can be read back.
\<close>

theorem onBefore_method_is_the_onAfter_callback:
  "''onBefore'' @ captialize (transitionKey ''n1'' ''n2'') = ''onBeforeN12n2'' \<and>
   map_sum id
     (\<lambda>(this, r). map_option (\<lambda>options. (methods options ''onBeforeN12n2'',
                                          methods options ''onAfterN12n2'')) (impl this))
     (and_then (and_then (and_then (and_then
        (addState FiniteStateMachine ''n1'' None None)
        (\<lambda>this. addState this ''n2'' None None))
        (\<lambda>this. addTransition this ''n1'' ''n2'' (Some 1) (Some 2)))
        (\<lambda>this. setInitState this ''n1''))
        (start \<lparr>eng_new = \<lambda>options. options, eng_state = init,
                eng_is = \<lambda>e s. init e = s, eng_cannot = \<lambda>e t. True,
                eng_method = \<lambda>e t. None\<rparr>)) =
     Inr (Some (Some (Callback 1), Some (Callback 1)))"
  by (simp add: run)

subsection \<open>The value go returns\<close>

text \<open>
  Every method that configures the adapter, starts it or registers or removes a handler
  returns \<^verbatim>\<open>this\<close> when it returns, and so does \<^verbatim>\<open>go(to)\<close> when the engine
  is already in \<open>to\<close>. \<^verbatim>\<open>current()\<close> returns the engine's state name.
\<close>

theorem chainable_methods_return_this:
  "(addState this name onEnter onLeave = Inr (this', r) \<longrightarrow> r = This) \<and>
   (setInitState this name = Inr (this', r) \<longrightarrow> r = This) \<and>
   (addTransition this from to onAfter onBefore = Inr (this', r) \<longrightarrow> r = This) \<and>
   (start M this = Inr (this', r) \<longrightarrow> r = This) \<and>
   (onEnterState this handler = Inr (this', r) \<longrightarrow> r = This) \<and>
   (onExitState this handler = Inr (this', r) \<longrightarrow> r = This) \<and>
   (offEnterState this handler = Inr (this', r) \<longrightarrow> r = This) \<and>
   (offExitState this handler = Inr (this', r) \<longrightarrow> r = This) \<and>
   (addErrorHandler this fn = Inr (this', r) \<longrightarrow> r = This) \<and>
   (impl this = Some e \<and> eng_is M e to \<and> go M this to = Inr (this', r) \<longrightarrow> r = This) \<and>
   (impl this = Some e \<longrightarrow> current M this = Inr (this, eng_state M e))"
  by (auto simp: addState_def setInitState_def addTransition_def start_def onEnterState_def
      onExitState_def offEnterState_def offExitState_def addErrorHandler_def go_def current_def
      ensureConfigureStage_def ensureRunningStage_def Let_def split: option.splits if_splits)

theorem chainable_methods_return_this_witness:
  "addErrorHandler (FiniteStateMachine :: stateMachine adapter) (Some 5) =
     Inr (FiniteStateMachine\<lparr>errorHandler := Some 5\<rparr>, This) \<and>
   current StateMachine
     ((FiniteStateMachine :: stateMachine adapter)
        \<lparr>impl := Some \<lparr>sm_state = ''n1'', sm_transitions = [], sm_reported = []\<rparr>\<rparr>) =
     Inr ((FiniteStateMachine :: stateMachine adapter)
            \<lparr>impl := Some \<lparr>sm_state = ''n1'', sm_transitions = [], sm_reported = []\<rparr>\<rparr>,
          ''n1'')"
  using chainable_methods_return_this
    [where this = "(FiniteStateMachine :: stateMachine adapter)
                     \<lparr>impl := Some \<lparr>sm_state = ''n1'', sm_transitions = [], sm_reported = []\<rparr>\<rparr>"
       and e = "\<lparr>sm_state = ''n1'', sm_transitions = [], sm_reported = []\<rparr>"
       and M = StateMachine]
  by (simp add: run)

text \<open>
  Claim C9, at the input where the code departs from it. With the states n1 and n2, the
  transition between them and the init state n1, \<^verbatim>\<open>go('n2')\<close> after \<^verbatim>\<open>start()\<close>
  runs the transition, the engine is in n2, and the value returned is the global
  \<^verbatim>\<open>self\<close>, not the adapter: line 325 reads \<^verbatim>\<open>return self\<close> in a method that
  declares no such variable.
\<close>

theorem go_returns_the_global_self:
  "map_sum id (\<lambda>(this, r). (map_option sm_state (impl this), r))
     (and_then (and_then (and_then (and_then (and_then
        (addState FiniteStateMachine ''n1'' None None)
        (\<lambda>this. addState this ''n2'' None None))
        (\<lambda>this. addTransition this ''n1'' ''n2'' (Some 1) None))
        (\<lambda>this. setInitState this ''n1''))
        (start StateMachine))
        (\<lambda>this. go StateMachine this ''n2'')) = Inr (Some ''n2'', GlobalSelf)"
  by (simp add: run)

end
